theory Spec2Isabelle
  imports Main
begin

section \<open>The form machine of \<^verbatim>\<open>src/App.js\<close>\<close>

text \<open>
  The source declares one statechart, \<^verbatim>\<open>formMachine\<close>, as a configuration object handed to
  the statechart library: a table of state nodes, each with its \<^verbatim>\<open>on\<close> handlers, its
  \<^verbatim>\<open>entry\<close> actions and, for \<^verbatim>\<open>submitting\<close>, an invoked promise service. The three named
  actions are \<^verbatim>\<open>assign\<close> updates of the machine's context.

  The embedding keeps that shape. The tables are transcribed node by node, and a small
  interpreter (\<open>select_transition\<close>, \<open>resolve_target\<close>, \<open>entry_actions\<close>, \<open>transition\<close>)
  gives them the meaning the library gives them: the handler of the deepest active node
  wins, a handler without a target runs its actions and leaves the state value alone, a
  handler with a target enters the target (descending to the \<^verbatim>\<open>initial\<close> child of a
  compound node) and runs the transition's actions followed by the entry actions of the
  nodes entered. No node of this machine has exit actions.

  On top of the transition function sits the running service that the view talks to
  through \<^verbatim>\<open>send\<close>: it holds the current state and knows which object the reported
  context is, and it is where a dispatch can raise.
\<close>

subsection \<open>Context\<close>

text \<open>
  \<^verbatim>\<open>context: { values: {}, errors: {} }\<close>. Both fields are plain objects used as
  dictionaries from field name to string; the field \<^verbatim>\<open>values\<close> is called \<open>form_values\<close>
  here.
\<close>

type_synonym fields = "string \<rightharpoonup> string"

record ctx =
  form_values :: fields
  errors :: fields

subsection \<open>State values and events\<close>

text \<open>
  The state value is \<^verbatim>\<open>{editing: "pristine"}\<close>, \<^verbatim>\<open>{editing: "error"}\<close>,
  \<^verbatim>\<open>"submitting"\<close> or \<^verbatim>\<open>"success"\<close>.
\<close>

datatype editing_state = pristine | error

datatype state_value = editing editing_state | submitting | success

record state =
  st_value :: state_value
  st_context :: ctx

text \<open>
  Event type names. The tables of the machine name \<^verbatim>\<open>CHANGE\<close>, \<^verbatim>\<open>SUBMIT\<close> and
  \<^verbatim>\<open>AGAIN\<close>; the completion events of the invoked service have library-made names that
  begin with \<^verbatim>\<open>done.invoke.\<close> and \<^verbatim>\<open>error.platform.\<close>. The library keeps the empty
  name and the names beginning with \<^verbatim>\<open>xstate.\<close>, \<^verbatim>\<open>done.\<close> and \<^verbatim>\<open>error.\<close> for its own
  events.

  The library does not treat every other name alike. Dispatching an event whose type is
  \<^verbatim>\<open>*\<close>, \<^verbatim>\<open>constructor\<close> or \<^verbatim>\<open>__proto__\<close> raises an error: the first is refused as the
  wildcard, the other two are found as inherited properties of the plain object in which
  the library looks up its candidate transitions, and what is found cannot be iterated.
\<close>

datatype fatal_type = wildcard | constructor_key | proto_key

fun fatal_type_name :: "fatal_type \<Rightarrow> string" where
  "fatal_type_name wildcard = ''*''"
| "fatal_type_name constructor_key = ''constructor''"
| "fatal_type_name proto_key = ''__proto__''"



definition handled_names :: "string list" where
  "handled_names = [''CHANGE'', ''SUBMIT'', ''AGAIN'']"

definition raising_names :: "string list" where
  "raising_names = map fatal_type_name [wildcard, constructor_key, proto_key]"

text \<open>
  The remaining property names of \<^verbatim>\<open>Object.prototype\<close> are found by the same lookup; what
  the library does with them depends on how it was built, and they are left out of the
  model.
\<close>

definition unmodelled_names :: "string list" where
  "unmodelled_names =
     [''toString'', ''toLocaleString'', ''valueOf'', ''hasOwnProperty'', ''isPrototypeOf'',
      ''propertyIsEnumerable'', ''__defineGetter__'', ''__defineSetter__'',
      ''__lookupGetter__'', ''__lookupSetter__'']"

definition has_prefix :: "string \<Rightarrow> string \<Rightarrow> bool" where
  "has_prefix p t = (take (length p) t = p)"

definition library_name :: "string \<Rightarrow> bool" where
  "library_name t =
     (t = [] \<or> has_prefix ''xstate.'' t \<or> has_prefix ''done.'' t \<or> has_prefix ''error.'' t)"

text \<open>
  A plain name is the type of an event that no table of the machine names, that is not one
  of the library's own, and that the library looks up without raising.
\<close>

definition plain_name :: "string \<Rightarrow> bool" where
  "plain_name t =
     (t \<notin> set handled_names \<and> t \<notin> set raising_names \<and> t \<notin> set unmodelled_names
      \<and> \<not> library_name t)"

typedef other_type = "{t. plain_name t}"
proof
  show "''PING'' \<in> {t. plain_name t}"
    by (simp add: plain_name_def handled_names_def raising_names_def unmodelled_names_def
        library_name_def has_prefix_def)
qed

text \<open>
  Events. \<open>CHANGE key value\<close>, \<open>SUBMIT\<close> and \<open>AGAIN\<close> are the events the view sends.
  \<open>DONE_INVOKE r\<close> and \<open>ERROR_PLATFORM e\<close> are the two events the library delivers when
  the promise of the invoked service settles: resolved with \<open>r\<close>, or rejected with \<open>e\<close>
  (the event's \<^verbatim>\<open>data\<close>). \<open>OTHER t\<close> is an event whose type is the plain name \<open>t\<close>, so
  it is never one of the five above. These are the events the library processes.
\<close>

datatype 'r event =
    CHANGE string string
  | SUBMIT
  | AGAIN
  | DONE_INVOKE 'r
  | ERROR_PLATFORM fields
  | OTHER other_type



subsection \<open>Actions\<close>

text \<open>
  \<^verbatim>\<open>onChange: assign({ values: (ctx, e) => ({ ...ctx.values, [e.key]: e.value }) })\<close>
\<close>

definition onChange :: "string \<Rightarrow> string \<Rightarrow> ctx \<Rightarrow> ctx" where
  "onChange k v c = c\<lparr>form_values := (form_values c)(k \<mapsto> v)\<rparr>"

text \<open>
  \<^verbatim>\<open>clearForm: assign({ values: {}, errors: {} })\<close>
\<close>

definition clearForm :: "ctx \<Rightarrow> ctx" where
  "clearForm c = c\<lparr>form_values := Map.empty, errors := Map.empty\<rparr>"

text \<open>
  \<^verbatim>\<open>onError: assign({ errors: (_ctx, e) => e.data })\<close>
\<close>

definition onError :: "fields \<Rightarrow> ctx \<Rightarrow> ctx" where
  "onError d c = c\<lparr>errors := d\<rparr>"

text \<open>Actions run in the order they are listed.\<close>

primrec exec :: "(ctx \<Rightarrow> ctx) list \<Rightarrow> ctx \<Rightarrow> ctx" where
  "exec [] c = c"
| "exec (a # as) c = exec as (a c)"

subsection \<open>The configuration tables\<close>

text \<open>
  Targets as the configuration writes them: \<^verbatim>\<open>"editing"\<close>, \<^verbatim>\<open>"editing.error"\<close>,
  \<^verbatim>\<open>"submitting"\<close>, \<^verbatim>\<open>"success"\<close>.
\<close>

datatype target = to_editing | to_editing_error | to_submitting | to_success

record transition_config =
  target :: "target option"
  actions :: "(ctx \<Rightarrow> ctx) list"

text \<open>
  \<^verbatim>\<open>editing.on = { CHANGE: { actions: ["onChange"] }, SUBMIT: "submitting" }\<close>
\<close>

fun editing_on :: "'r event \<Rightarrow> transition_config option" where
  "editing_on (CHANGE k v) = Some \<lparr>target = None, actions = [onChange k v]\<rparr>"
| "editing_on SUBMIT = Some \<lparr>target = Some to_submitting, actions = []\<rparr>"
| "editing_on _ = None"

text \<open>
  \<^verbatim>\<open>pristine: { entry: ["clearForm"] }\<close> and \<^verbatim>\<open>error: {}\<close>: neither substate has
  handlers of its own.
\<close>

fun substate_on :: "editing_state \<Rightarrow> 'r event \<Rightarrow> transition_config option" where
  "substate_on pristine _ = None"
| "substate_on error _ = None"

fun substate_entry :: "editing_state \<Rightarrow> (ctx \<Rightarrow> ctx) list" where
  "substate_entry pristine = [clearForm]"
| "substate_entry error = []"

text \<open>
  \<^verbatim>\<open>submitting.invoke = { src: "onSubmit", onDone: "success",
    onError: { target: "editing.error", actions: ["onError"] } }\<close>
\<close>

fun submitting_invoke :: "'r event \<Rightarrow> transition_config option" where
  "submitting_invoke (DONE_INVOKE r) = Some \<lparr>target = Some to_success, actions = []\<rparr>"
| "submitting_invoke (ERROR_PLATFORM d) =
     Some \<lparr>target = Some to_editing_error, actions = [onError d]\<rparr>"
| "submitting_invoke _ = None"

text \<open>
  \<^verbatim>\<open>success.on = { AGAIN: "editing" }\<close>
\<close>

fun success_on :: "'r event \<Rightarrow> transition_config option" where
  "success_on AGAIN = Some \<lparr>target = Some to_editing, actions = []\<rparr>"
| "success_on _ = None"

text \<open>
  \<^verbatim>\<open>initial: "editing"\<close> at the root, \<^verbatim>\<open>initial: "pristine"\<close> inside \<^verbatim>\<open>editing\<close>, and the
  context the configuration declares.
\<close>

definition formMachine_initial :: target where
  "formMachine_initial = to_editing"

definition editing_initial :: editing_state where
  "editing_initial = pristine"

definition formMachine_context :: ctx where
  "formMachine_context = \<lparr>form_values = Map.empty, errors = Map.empty\<rparr>"

subsection \<open>Interpreting the tables\<close>

text \<open>The handler of the deepest active node that has one for the event.\<close>

fun select_transition :: "state_value \<Rightarrow> 'r event \<Rightarrow> transition_config option" where
  "select_transition (editing sub) e =
     (case substate_on sub e of Some t \<Rightarrow> Some t | None \<Rightarrow> editing_on e)"
| "select_transition submitting e = submitting_invoke e"
| "select_transition success e = success_on e"

text \<open>A target naming the compound node \<^verbatim>\<open>editing\<close> descends to its initial child.\<close>

fun resolve_target :: "target \<Rightarrow> state_value" where
  "resolve_target to_editing = editing editing_initial"
| "resolve_target to_editing_error = editing error"
| "resolve_target to_submitting = submitting"
| "resolve_target to_success = success"

text \<open>
  Entry actions of the nodes entered, outermost first. Every targeted transition of this
  machine is declared on a top-level node and leaves it, so the whole target configuration
  is entered. \<^verbatim>\<open>editing\<close>, \<^verbatim>\<open>submitting\<close> and \<^verbatim>\<open>success\<close> declare no entry actions.
\<close>

fun entry_actions :: "state_value \<Rightarrow> (ctx \<Rightarrow> ctx) list" where
  "entry_actions (editing sub) = [] @ substate_entry sub"
| "entry_actions submitting = []"
| "entry_actions success = []"

definition transition :: "state \<Rightarrow> 'r event \<Rightarrow> state" where
  "transition s e =
     (case select_transition (st_value s) e of
        None \<Rightarrow> s
      | Some t \<Rightarrow>
          (case target t of
             None \<Rightarrow> s\<lparr>st_context := exec (actions t) (st_context s)\<rparr>
           | Some tg \<Rightarrow>
               \<lparr>st_value = resolve_target tg,
                st_context =
                  exec (actions t @ entry_actions (resolve_target tg)) (st_context s)\<rparr>))"

text \<open>
  The state a machine starts in: the initial configuration is entered and its entry
  actions run on the machine's context.
\<close>

definition initialState_of :: "ctx \<Rightarrow> state" where
  "initialState_of c =
     \<lparr>st_value = resolve_target formMachine_initial,
      st_context = exec (entry_actions (resolve_target formMachine_initial)) c\<rparr>"

definition initialState :: state where
  "initialState = initialState_of formMachine_context"

text \<open>Dispatching a sequence of events to a started machine.\<close>

definition run :: "'r event list \<Rightarrow> state" where
  "run es = foldl transition initialState es"

subsection \<open>The running service\<close>

text \<open>
  The service holds the current state. The context it reports is a JavaScript object, and
  whether two reports give the same object or two equal ones is observable; \<open>context_ref\<close>
  is the identity of the object currently reported and \<open>next_ref\<close> the next unused
  identity.
\<close>

record service =
  current :: state
  context_ref :: nat
  next_ref :: nat

text \<open>
  \<^verbatim>\<open>const [state, send] = useMachine(formMachine, { services: { onSubmit } })\<close> starts
  the service in the machine's initial state. The services option is all the source
  passes; it plays no part before \<^verbatim>\<open>submitting\<close> is entered.
\<close>

definition useMachine :: service where
  "useMachine = \<lparr>current = initialState, context_ref = 0, next_ref = 1\<rparr>"

text \<open>The actions that \<open>transition\<close> runs for an event, in order.\<close>

definition actions_run :: "state \<Rightarrow> 'r event \<Rightarrow> (ctx \<Rightarrow> ctx) list" where
  "actions_run s e =
     (case select_transition (st_value s) e of
        None \<Rightarrow> []
      | Some t \<Rightarrow>
          (case target t of
             None \<Rightarrow> actions t
           | Some tg \<Rightarrow> actions t @ entry_actions (resolve_target tg)))"




text \<open>
  The event types each state recognizes, read off the tables: \<^verbatim>\<open>editing.on\<close> names
  \<^verbatim>\<open>CHANGE\<close> and \<^verbatim>\<open>SUBMIT\<close> (for both substates, which name nothing themselves),
  \<^verbatim>\<open>submitting.invoke\<close> names the two completion events, \<^verbatim>\<open>success.on\<close> names
  \<^verbatim>\<open>AGAIN\<close>.
\<close>

fun recognizes :: "state_value \<Rightarrow> 'r event \<Rightarrow> bool" where
  "recognizes (editing sub) (CHANGE k v) = True"
| "recognizes (editing sub) SUBMIT = True"
| "recognizes submitting (DONE_INVOKE r) = True"
| "recognizes submitting (ERROR_PLATFORM d) = True"
| "recognizes success AGAIN = True"
| "recognizes _ _ = False"


section \<open>Properties\<close>

subsection \<open>Helper facts\<close>

lemma substate_on_None [simp]: "substate_on sub e = None"
  by (cases sub) simp_all

lemma transition_editing_CHANGE:
  "transition \<lparr>st_value = editing sub, st_context = c\<rparr> (CHANGE k v) =
     \<lparr>st_value = editing sub, st_context = onChange k v c\<rparr>"
  by (cases sub) (simp_all add: transition_def)

lemma transition_editing_SUBMIT:
  "transition \<lparr>st_value = editing sub, st_context = c\<rparr> SUBMIT =
     \<lparr>st_value = submitting, st_context = c\<rparr>"
  by (cases sub) (simp_all add: transition_def)

lemma transition_submitting_DONE:
  "transition \<lparr>st_value = submitting, st_context = c\<rparr> (DONE_INVOKE r) =
     \<lparr>st_value = success, st_context = c\<rparr>"
  by (simp add: transition_def)

lemma transition_submitting_ERROR:
  "transition \<lparr>st_value = submitting, st_context = c\<rparr> (ERROR_PLATFORM d) =
     \<lparr>st_value = editing error, st_context = onError d c\<rparr>"
  by (simp add: transition_def)

lemma transition_success_AGAIN:
  "transition \<lparr>st_value = success, st_context = c\<rparr> AGAIN =
     \<lparr>st_value = editing pristine, st_context = clearForm c\<rparr>"
  by (simp add: transition_def editing_initial_def)


lemma initialState_of_eq:
  "initialState_of c = \<lparr>st_value = editing pristine, st_context = clearForm c\<rparr>"
  by (simp add: initialState_of_def formMachine_initial_def editing_initial_def)

lemma transition_runs_actions:
  "st_context (transition s e) = exec (actions_run s e) (st_context s)"
  by (simp add: transition_def actions_run_def split: option.splits)


lemma recognized_has_handler:
  "recognizes v e \<Longrightarrow> select_transition v e \<noteq> None"
  by (cases v; cases e) simp_all


lemma other_type_PING: "Rep_other_type (Abs_other_type ''PING'') = ''PING''"
  by (rule Abs_other_type_inverse)
    (simp add: plain_name_def handled_names_def raising_names_def unmodelled_names_def
      library_name_def has_prefix_def)


text \<open>
  One step keeps the errors of \<^verbatim>\<open>editing.pristine\<close> empty: the only ways into
  \<^verbatim>\<open>pristine\<close> run \<open>clearForm\<close>, and \<open>onChange\<close> does not touch the errors.
\<close>

lemma transition_keeps_pristine_clean:
  assumes "st_value s = editing pristine \<Longrightarrow> errors (st_context s) = Map.empty"
    and "st_value (transition s e) = editing pristine"
  shows "errors (st_context (transition s e)) = Map.empty"
proof (cases "st_value s")
  case (editing sub)
  then show ?thesis using assms
    by (cases e; cases sub) (auto simp: transition_def onChange_def)
next
  case submitting
  then show ?thesis using assms
    by (cases e) (auto simp: transition_def)
next
  case success
  then show ?thesis using assms
    by (cases e) (auto simp: transition_def clearForm_def editing_initial_def)
qed

lemma foldl_keeps_pristine_clean:
  assumes "st_value s = editing pristine \<Longrightarrow> errors (st_context s) = Map.empty"
    and "st_value (foldl transition s es) = editing pristine"
  shows "errors (st_context (foldl transition s es)) = Map.empty"
  using assms
proof (induction es arbitrary: s)
  case Nil
  then show ?case by simp
next
  case (Cons e es)
  have "st_value (transition s e) = editing pristine \<Longrightarrow>
        errors (st_context (transition s e)) = Map.empty"
    using Cons.prems(1) by (rule transition_keeps_pristine_clean)
  with Cons.IH [of "transition s e"] Cons.prems(2) show ?case by simp
qed

lemma initialState_clean: "errors (st_context (initialState_of c)) = Map.empty"
  by (simp add: initialState_of_eq clearForm_def)

subsection \<open>Initial state\<close>

text \<open>
  Claim C1. A freshly constructed machine, with no overrides, is in state
  \<^verbatim>\<open>editing.pristine\<close> and its context is exactly \<^verbatim>\<open>{values: {}, errors: {}}\<close>. This is
  stated for the machine's initial state and for the service the source starts.
\<close>

theorem initial_state_pristine_empty:
  "initialState =
     \<lparr>st_value = editing pristine,
      st_context = \<lparr>form_values = Map.empty, errors = Map.empty\<rparr>\<rparr>
   \<and> current useMachine = initialState"
  by (simp add: initialState_def useMachine_def initialState_of_eq clearForm_def
      formMachine_context_def)

subsection \<open>Editing\<close>

text \<open>
  Claim C2. For every context and every substate of \<^verbatim>\<open>editing\<close>, dispatching
  \<^verbatim>\<open>CHANGE{key, value}\<close> gives a context whose values are the old values with \<open>key\<close>
  bound to \<open>value\<close> and every other key as it was, leaves the errors as they were, and
  leaves the state value, substate included, as it was.
\<close>

theorem change_updates_one_value:
  "transition \<lparr>st_value = editing sub, st_context = c\<rparr> (CHANGE k v) =
     \<lparr>st_value = editing sub,
      st_context = \<lparr>form_values = (form_values c)(k \<mapsto> v), errors = errors c\<rparr>\<rparr>"
  by (simp add: transition_editing_CHANGE onChange_def)

text \<open>
  Claim C4. For every context, dispatching \<^verbatim>\<open>SUBMIT\<close> from either substate of
  \<^verbatim>\<open>editing\<close> moves the machine to \<^verbatim>\<open>submitting\<close> with the context unchanged; if the
  service then resolves, with whatever payload, the machine moves to \<^verbatim>\<open>success\<close> and the
  context is still the one from before the submission, so the payload is not stored.
\<close>

theorem submit_then_done_keeps_context:
  "transition \<lparr>st_value = editing sub, st_context = c\<rparr> SUBMIT =
     \<lparr>st_value = submitting, st_context = c\<rparr>
   \<and> transition (transition \<lparr>st_value = editing sub, st_context = c\<rparr> SUBMIT) (DONE_INVOKE r) =
     \<lparr>st_value = success, st_context = c\<rparr>"
  by (simp add: transition_editing_SUBMIT transition_submitting_DONE)

subsection \<open>Submitting\<close>

text \<open>
  Claim C3. For every context and every substate of \<^verbatim>\<open>editing\<close> the submission started
  from: when the machine is in \<^verbatim>\<open>submitting\<close> and the service rejects with payload \<open>d\<close>,
  the machine moves to \<^verbatim>\<open>editing.error\<close>, the errors become exactly \<open>d\<close> (the old errors
  are replaced, not merged) and the values are those from before the submission.
\<close>

theorem reject_replaces_errors:
  "transition \<lparr>st_value = submitting, st_context = c\<rparr> (ERROR_PLATFORM d) =
     \<lparr>st_value = editing error,
      st_context = \<lparr>form_values = form_values c, errors = d\<rparr>\<rparr>
   \<and> transition (transition \<lparr>st_value = editing sub, st_context = c\<rparr> SUBMIT)
         (ERROR_PLATFORM d) =
     \<lparr>st_value = editing error,
      st_context = \<lparr>form_values = form_values c, errors = d\<rparr>\<rparr>"
  by (simp add: transition_editing_SUBMIT transition_submitting_ERROR onError_def)

subsection \<open>Success\<close>

text \<open>
  Claim C5. For every context, whatever its values and errors, dispatching \<^verbatim>\<open>AGAIN\<close>
  from \<^verbatim>\<open>success\<close> moves the machine to \<^verbatim>\<open>editing.pristine\<close> and the context becomes
  \<^verbatim>\<open>{values: {}, errors: {}}\<close>: the \<^verbatim>\<open>clearForm\<close> entry action of \<^verbatim>\<open>pristine\<close> runs on
  this re-entry.
\<close>

theorem again_clears_form:
  "transition \<lparr>st_value = success, st_context = c\<rparr> AGAIN =
     \<lparr>st_value = editing pristine,
      st_context = \<lparr>form_values = Map.empty, errors = Map.empty\<rparr>\<rparr>
   \<and> entry_actions (resolve_target to_editing) = [clearForm]"
  by (simp add: transition_success_AGAIN clearForm_def editing_initial_def)

subsection \<open>Ignored events\<close>

text \<open>
  Claim C6. For every context, while the machine is in \<^verbatim>\<open>submitting\<close> or in
  \<^verbatim>\<open>success\<close>, dispatching \<^verbatim>\<open>CHANGE\<close> or \<^verbatim>\<open>SUBMIT\<close> changes neither the state value nor
  the context.
\<close>

theorem change_and_submit_ignored_outside_editing:
  "transition \<lparr>st_value = submitting, st_context = c\<rparr> (CHANGE k v) =
     \<lparr>st_value = submitting, st_context = c\<rparr>
   \<and> transition \<lparr>st_value = submitting, st_context = c\<rparr> SUBMIT =
     \<lparr>st_value = submitting, st_context = c\<rparr>
   \<and> transition \<lparr>st_value = success, st_context = c\<rparr> (CHANGE k v) =
     \<lparr>st_value = success, st_context = c\<rparr>
   \<and> transition \<lparr>st_value = success, st_context = c\<rparr> SUBMIT =
     \<lparr>st_value = success, st_context = c\<rparr>"
  by (simp add: transition_def)




subsection \<open>Stale errors\<close>

text \<open>
  Claim C10. For every context, dispatching \<^verbatim>\<open>SUBMIT\<close> from \<^verbatim>\<open>editing.error\<close> moves the
  machine to \<^verbatim>\<open>submitting\<close> with the errors unchanged, and if the service then resolves
  the machine is in \<^verbatim>\<open>success\<close> with the errors still unchanged: nothing on this path
  clears them.
\<close>

theorem stale_errors_survive_resubmission:
  "transition \<lparr>st_value = editing error, st_context = c\<rparr> SUBMIT =
     \<lparr>st_value = submitting, st_context = c\<rparr>
   \<and> errors (st_context (transition \<lparr>st_value = editing error, st_context = c\<rparr> SUBMIT)) =
       errors c
   \<and> st_value (transition (transition \<lparr>st_value = editing error, st_context = c\<rparr> SUBMIT)
        (DONE_INVOKE r)) = success
   \<and> errors (st_context
        (transition (transition \<lparr>st_value = editing error, st_context = c\<rparr> SUBMIT)
           (DONE_INVOKE r))) = errors c"
  by (simp add: transition_editing_SUBMIT transition_submitting_DONE)

text \<open>
  Claim C7, as stated: in every configuration reachable from the initial state, the errors
  are non-empty only when the state is \<^verbatim>\<open>editing.error\<close>. It fails: after a rejected
  submission and a second \<^verbatim>\<open>SUBMIT\<close> the machine is in \<^verbatim>\<open>submitting\<close> and the errors of the
  rejection are still there.
\<close>

theorem stale_errors_counterexample:
  "\<not> (errors (st_context (run [SUBMIT, ERROR_PLATFORM [''reams'' \<mapsto> ''Not enough reams!''],
                               SUBMIT :: bool event])) \<noteq> Map.empty
      \<longrightarrow> st_value (run [SUBMIT, ERROR_PLATFORM [''reams'' \<mapsto> ''Not enough reams!''],
                         SUBMIT :: bool event]) = editing error)"
  by (simp add: run_def initialState_def initialState_of_eq clearForm_def
      formMachine_context_def transition_editing_SUBMIT transition_submitting_ERROR
      onError_def)

text \<open>
  Claim C7, amended. In every configuration reachable from the initial state by dispatched
  events and service completions, the errors are non-empty only when the state is
  \<^verbatim>\<open>editing.error\<close>, \<^verbatim>\<open>submitting\<close> or \<^verbatim>\<open>success\<close>; in \<^verbatim>\<open>editing.pristine\<close> they are
  always empty.
\<close>

theorem errors_nonempty_not_pristine:
  assumes "errors (st_context (run es)) \<noteq> Map.empty"
  shows "st_value (run es) \<in> {editing error, submitting, success}"
proof -
  have "st_value (run es) \<noteq> editing pristine"
    using assms foldl_keeps_pristine_clean [of initialState es]
    by (auto simp: run_def initialState_def initialState_clean)
  then show ?thesis
    by (cases "st_value (run es)") (auto intro: editing_state.exhaust)
qed

text \<open>
  The hypothesis of the amended C7 holds after one rejected submission.
\<close>

theorem errors_nonempty_not_pristine_witness:
  "errors (st_context (run [SUBMIT, ERROR_PLATFORM [''reams'' \<mapsto> ''Not enough reams!'']
                              :: bool event])) \<noteq> Map.empty
   \<and> st_value (run [SUBMIT, ERROR_PLATFORM [''reams'' \<mapsto> ''Not enough reams!'']
                     :: bool event])
       \<in> {editing error, submitting, success}"
proof -
  have h: "errors (st_context (run [SUBMIT, ERROR_PLATFORM [''reams'' \<mapsto> ''Not enough reams!'']
                                     :: bool event])) \<noteq> Map.empty"
    by (simp add: run_def initialState_def initialState_of_eq clearForm_def
        formMachine_context_def transition_editing_SUBMIT transition_submitting_ERROR
        onError_def)
  from errors_nonempty_not_pristine [OF h] h show ?thesis by simp
qed

end
